theory Spec2Isabelle
  imports Main "HOL-Library.Word" "HOL-Library.Sublist"
begin

section \<open>JavaScript strings\<close>

text \<open>
  A JavaScript string is a sequence of 16-bit code units. String literals of the source
  are ASCII and are embedded with \<open>js\<close>; the one non-ASCII letter the development needs
  (U+00E9) is written as its code unit.
\<close>

type_synonym jschar = "16 word"
type_synonym jsstring = "jschar list"

definition js :: "string \<Rightarrow> jsstring" where
  "js s = map of_char s"

text \<open>
  ECMAScript \<open>LineTerminator\<close>: LF, CR, LS, PS. The regular expression atom \<open>.\<close>
  (without the \<open>s\<close> flag) matches every code unit but these.
\<close>

definition isLineTerminator :: "jschar \<Rightarrow> bool" where
  "isLineTerminator c = (c = 0x000A \<or> c = 0x000D \<or> c = 0x2028 \<or> c = 0x2029)"

text \<open>
  The code units that \<open>String.prototype.trim\<close> strips and that \<open>\s\<close> matches:
  ECMAScript \<open>WhiteSpace\<close> (TAB, VT, FF, ZWNBSP and the space separators) together
  with \<open>LineTerminator\<close>.
\<close>

definition isWhiteSpace :: "jschar \<Rightarrow> bool" where
  "isWhiteSpace c =
     (c = 0x0009 \<or> c = 0x000B \<or> c = 0x000C \<or> c = 0x0020 \<or> c = 0x00A0 \<or> c = 0x1680 \<or>
      (0x2000 \<le> c \<and> c \<le> 0x200A) \<or> c = 0x202F \<or> c = 0x205F \<or> c = 0x3000 \<or>
      c = 0xFEFF \<or> isLineTerminator c)"

definition trim :: "jsstring \<Rightarrow> jsstring" where
  "trim s = rev (dropWhile isWhiteSpace (rev (dropWhile isWhiteSpace s)))"

text \<open>
  \<open>toLowerCase\<close> on the ASCII range (\<open>A\<close>..\<open>Z\<close> to \<open>a\<close>..\<open>z\<close>). Every sender name
  the program passes to it is an ASCII literal; other code units are left as they are.
\<close>

definition lower_unit :: "jschar \<Rightarrow> jschar" where
  "lower_unit c = (if 0x41 \<le> c \<and> c \<le> 0x5A then c + 0x20 else c)"

definition toLowerCase :: "jsstring \<Rightarrow> jsstring" where
  "toLowerCase s = map lower_unit s"

text \<open>
  \<open>Number.prototype.toString\<close> on an integer (the only numbers the program
  stringifies are the millisecond counts of \<open>Date.now()\<close>): decimal digits, with a
  minus sign for a negative value.
\<close>

fun digits :: "nat \<Rightarrow> jsstring" where
  "digits n =
     (if n < 10 then [of_nat (48 + n)]
      else digits (n div 10) @ [of_nat (48 + n mod 10)])"

declare digits.simps [simp del]

definition toString :: "int \<Rightarrow> jsstring" where
  "toString i = (if i < 0 then js ''-'' @ digits (nat (- i)) else digits (nat i))"

text \<open>The template literal \<open>${x}\<close> of a string that may be \<open>undefined\<close>.\<close>

definition template :: "jsstring option \<Rightarrow> jsstring" where
  "template v = (case v of None \<Rightarrow> js ''undefined'' | Some t \<Rightarrow> t)"

text \<open>Truthiness of a string that may be \<open>undefined\<close>: present and not empty.\<close>

definition truthy :: "jsstring option \<Rightarrow> bool" where
  "truthy v = (case v of None \<Rightarrow> False | Some t \<Rightarrow> t \<noteq> [])"


section \<open>Identity store (lines 4-8 and 188-192, the same in both variants)\<close>

text \<open>
  \<open>localStorage\<close> is a map from keys to strings; \<open>getItem\<close> of a missing key is
  \<open>null\<close> (\<open>None\<close>). \<open>Date.now()\<close> is the parameter \<open>now\<close>. The function
  returns the value of the module variable \<open>userId\<close> and the storage after the script's
  first statements.
\<close>

type_synonym storage = "jsstring \<rightharpoonup> jsstring"

definition wine_userId :: jsstring where
  "wine_userId = js ''wine_userId''"

definition init_userId :: "int \<Rightarrow> storage \<Rightarrow> jsstring \<times> storage" where
  "init_userId now localStorage =
     (if truthy (localStorage wine_userId) then (the (localStorage wine_userId), localStorage)
      else (toString now, localStorage(wine_userId \<mapsto> toString now)))"


section \<open>Shared data: transcript lines, requests, responses\<close>

text \<open>
  The sender tag of a message. Every call of \<open>addMessage\<close> in the source passes one of
  the three literals \<open>"AI"\<close>, \<open>"You"\<close>, \<open>"System"\<close>.
\<close>

datatype sender = AI | You | System

fun sender_name :: "sender \<Rightarrow> jsstring" where
  "sender_name AI = js ''AI''"
| "sender_name You = js ''You''"
| "sender_name System = js ''System''"

text \<open>A \<open><p>\<close> element of the transcript: its text and its class list.\<close>

record p_element =
  p_textContent :: jsstring
  p_classList :: "jsstring list"

text \<open>
  The element \<open>addMessage\<close> creates (lines 36-38 and 211-213): text
  \<open>`${sender}: ${text}`\<close>, one class, the lowercased sender.
\<close>

definition new_p :: "sender \<Rightarrow> jsstring \<Rightarrow> p_element" where
  "new_p sender text =
     \<lparr>p_textContent = sender_name sender @ js '': '' @ text,
      p_classList = [toLowerCase (sender_name sender)]\<rparr>"

text \<open>
  A call of \<open>fetch\<close>: method, URL and, for a POST with a body, the object given to
  \<open>JSON.stringify\<close> (its one field name and value), before serialisation.
\<close>

datatype http_method = GET | POST

record request =
  req_method :: http_method
  req_url :: jsstring
  req_body :: "(jsstring \<times> jsstring) option"

definition serverUrl :: jsstring where
  "serverUrl = js ''http://127.0.0.1:5001''"

text \<open>
  What \<open>await fetch(...)\<close> followed by \<open>await resp.json()\<close> gives: \<open>Rejected\<close>
  when either promise rejects (network failure, body that is not JSON); \<open>JsonNull\<close> for
  the body \<open>null\<close>, on which every property read throws a TypeError; \<open>JsonObj\<close> for an
  object, of which the program reads the four fields below. A field, when present, has
  the type the endpoint declares; \<open>None\<close> is an absent field (\<open>undefined\<close>). Any
  other body (a number, a string, an array) reads like the object with no field.
\<close>

record json_body =
  r_error :: "jsstring option"
  r_message :: "jsstring option"
  r_done :: "bool option"
  r_options :: "jsstring list option"

datatype response = Rejected | JsonNull | JsonObj json_body


section \<open>Variant A (lines 1-187): /next_question, /answer, /reset\<close>

record button =
  button_textContent :: jsstring
  button_disabled :: bool

text \<open>
  An async function of variant A that has issued its \<open>fetch\<close> and waits for it, and
  the async function (if any) that waits for that one with \<open>await\<close>.
\<close>

datatype frame = NextQ | Answer | Reset

text \<open>
  The module variables and the DOM of variant A. \<open>fetched\<close> is the log of the
  \<open>fetch\<close> calls made so far, \<open>awaiting\<close> the calls that have not settled yet.
  Scrolling and \<open>console.error\<close> are not modelled.
\<close>

record pageA =
  userId :: jsstring
  isFetching :: bool
  conversationDiv :: "p_element list"
  optionsDiv :: "button list"
  userInput_value :: jsstring
  userInput_disabled :: bool
  submitButton_disabled :: bool
  fetched :: "request list"
  awaiting :: "(frame \<times> frame option) list"

definition addMessage :: "sender \<Rightarrow> jsstring \<Rightarrow> pageA \<Rightarrow> pageA" where
  "addMessage sender text s = s\<lparr>conversationDiv := conversationDiv s @ [new_p sender text]\<rparr>"

definition disableUI :: "pageA \<Rightarrow> pageA" where
  "disableUI s =
     s\<lparr>userInput_disabled := True, submitButton_disabled := True,
       optionsDiv := map (\<lambda>btn. btn\<lparr>button_disabled := True\<rparr>) (optionsDiv s)\<rparr>"

definition enableUI :: "pageA \<Rightarrow> pageA" where
  "enableUI s = s\<lparr>userInput_disabled := False, submitButton_disabled := False\<rparr>"

definition fetch :: "request \<Rightarrow> frame \<Rightarrow> frame option \<Rightarrow> pageA \<Rightarrow> pageA" where
  "fetch req f caller s =
     s\<lparr>fetched := fetched s @ [req], awaiting := awaiting s @ [(f, caller)]\<rparr>"

text \<open>The \<open>catch\<close> and \<open>finally\<close> blocks, the same in the three async functions.\<close>

definition catch_block :: "pageA \<Rightarrow> pageA" where
  "catch_block s = addMessage System (js ''Unable to connect to server.'') s"

definition finally_block :: "pageA \<Rightarrow> pageA" where
  "finally_block s = enableUI (s\<lparr>isFetching := False\<rparr>)"

subsection \<open>The regular expression \<open>/Options:\s*(.*)/i\<close>, \<open>split\<close> and the buttons\<close>

text \<open>
  Case-insensitive comparison of a code unit with an ASCII pattern character: both are
  canonicalised to upper case; a code unit outside ASCII never canonicalises into ASCII.
\<close>

definition canonicalize :: "jschar \<Rightarrow> jschar" where
  "canonicalize c = (if 0x61 \<le> c \<and> c \<le> 0x7A then c - 0x20 else c)"

fun match_literal :: "jsstring \<Rightarrow> jsstring \<Rightarrow> jsstring option" where
  "match_literal [] s = Some s"
| "match_literal (p # ps) [] = None"
| "match_literal (p # ps) (c # cs) =
     (if canonicalize c = canonicalize p then match_literal ps cs else None)"

text \<open>
  The pattern tried at one start position: the literal, then \<open>\s*\<close> (greedy, line
  terminators included), then the group \<open>(.*)\<close> up to the next line terminator. The
  two starred parts always match, so nothing backtracks. The result is the group.
\<close>

definition match_at :: "jsstring \<Rightarrow> jsstring option" where
  "match_at s =
     (case match_literal (js ''Options:'') s of
        None \<Rightarrow> None
      | Some rest \<Rightarrow>
          Some (takeWhile (\<lambda>c. \<not> isLineTerminator c) (dropWhile isWhiteSpace rest)))"

text \<open>\<open>str.match(re)\<close>: the leftmost start position that matches; \<open>None\<close> is \<open>null\<close>.\<close>

fun options_regex :: "jsstring \<Rightarrow> jsstring option" where
  "options_regex [] = match_at []"
| "options_regex (c # cs) =
     (case match_at (c # cs) of
        Some optionsStr \<Rightarrow> Some optionsStr
      | None \<Rightarrow> options_regex cs)"

text \<open>\<open>str.split(",")\<close>; the empty string splits into one empty piece.\<close>

fun split_comma :: "jsstring \<Rightarrow> jsstring list" where
  "split_comma [] = [[]]"
| "split_comma (c # cs) =
     (if c = 0x2C then [] # split_comma cs
      else (case split_comma cs of
              [] \<Rightarrow> [[c]]
            | piece # pieces \<Rightarrow> (c # piece) # pieces))"

definition new_button :: "jsstring \<Rightarrow> button" where
  "new_button opt = \<lparr>button_textContent = opt, button_disabled = False\<rparr>"

subsection \<open>GET /next_question\<close>

definition next_question_request :: "jsstring \<Rightarrow> request" where
  "next_question_request uid =
     \<lparr>req_method = GET, req_url = serverUrl @ js ''/next_question?user_id='' @ uid,
      req_body = None\<rparr>"

text \<open>
  Lines 60-66, up to the first \<open>await\<close>. \<open>caller\<close> is the async function that
  awaits this call, if one does.
\<close>

definition getNextQuestion :: "frame option \<Rightarrow> pageA \<Rightarrow> pageA" where
  "getNextQuestion caller s =
     (if isFetching s then s
      else fetch (next_question_request (userId s)) NextQ caller
             (disableUI (s\<lparr>isFetching := True\<rparr>)))"

text \<open>\<open>data.message || ""\<close> (line 81).\<close>

definition message_or_empty :: "json_body \<Rightarrow> jsstring" where
  "message_or_empty data = (if truthy (r_message data) then the (r_message data) else [])"

text \<open>Lines 67-102, from the response on.\<close>

definition getNextQuestion_resume :: "response \<Rightarrow> pageA \<Rightarrow> pageA" where
  "getNextQuestion_resume r s =
     finally_block
       (case r of
          Rejected \<Rightarrow> catch_block s
        | JsonNull \<Rightarrow> catch_block s
        | JsonObj data \<Rightarrow>
            (let s1 = (if truthy (r_error data) then addMessage System (the (r_error data)) s
                       else addMessage AI (template (r_message data)) s);
                 s2 = s1\<lparr>optionsDiv := []\<rparr>
             in case options_regex (message_or_empty data) of
                  None \<Rightarrow> s2
                | Some optionsStr \<Rightarrow>
                    s2\<lparr>optionsDiv := map new_button (map trim (split_comma optionsStr))\<rparr>))"

text \<open>
  \<open>await getNextQuestion()\<close> at the end of a \<open>try\<close> block (lines 126 and 166), with
  the \<open>finally\<close> block that follows it. A call that returns at its gate (line 61) has
  completed, and the caller goes on to its \<open>finally\<close> block at once. A call that
  issues its \<open>fetch\<close> leaves the caller suspended until that call completes.
\<close>

definition await_getNextQuestion :: "frame \<Rightarrow> pageA \<Rightarrow> pageA" where
  "await_getNextQuestion caller s =
     (if isFetching s then finally_block (getNextQuestion (Some caller) s)
      else getNextQuestion (Some caller) s)"

subsection \<open>POST /answer\<close>

definition answer_request :: "jsstring \<Rightarrow> jsstring \<Rightarrow> request" where
  "answer_request uid answer =
     \<lparr>req_method = POST, req_url = serverUrl @ js ''/answer?user_id='' @ uid,
      req_body = Some (js ''answer'', answer)\<rparr>"

definition sendAnswer :: "jsstring \<Rightarrow> pageA \<Rightarrow> pageA" where
  "sendAnswer answer s =
     (if isFetching s then s
      else fetch (answer_request (userId s) answer) Answer None
             (disableUI (s\<lparr>isFetching := True\<rparr>)))"

definition sendAnswer_resume :: "response \<Rightarrow> pageA \<Rightarrow> pageA" where
  "sendAnswer_resume r s =
     (case r of
        Rejected \<Rightarrow> finally_block (catch_block s)
      | JsonNull \<Rightarrow> finally_block (catch_block s)
      | JsonObj data \<Rightarrow>
          (let s1 = addMessage AI (template (r_message data)) s
           in if r_done data \<noteq> Some True then await_getNextQuestion Answer s1
              else finally_block s1))"

subsection \<open>POST /reset\<close>

definition reset_request :: "jsstring \<Rightarrow> request" where
  "reset_request uid =
     \<lparr>req_method = POST, req_url = serverUrl @ js ''/reset?user_id='' @ uid,
      req_body = None\<rparr>"

definition resetRecommender :: "pageA \<Rightarrow> pageA" where
  "resetRecommender s =
     (if isFetching s then s
      else fetch (reset_request (userId s)) Reset None
             (disableUI (s\<lparr>isFetching := True\<rparr>)))"

text \<open>Lines 153-155.\<close>

definition clear_page :: "pageA \<Rightarrow> pageA" where
  "clear_page s = s\<lparr>conversationDiv := [], optionsDiv := [], userInput_value := []\<rparr>"

definition resetRecommender_resume :: "response \<Rightarrow> pageA \<Rightarrow> pageA" where
  "resetRecommender_resume r s =
     (case r of
        Rejected \<Rightarrow> finally_block (catch_block s)
      | JsonNull \<Rightarrow> finally_block (catch_block (clear_page s))
      | JsonObj data \<Rightarrow>
          (let s1 = clear_page s;
               s2 = (if truthy (r_message data) then addMessage System (the (r_message data)) s1
                     else addMessage System (js ''Session reset. Starting fresh...'') s1)
           in await_getNextQuestion Reset s2))"

subsection \<open>Event handlers\<close>

definition handleSubmit :: "pageA \<Rightarrow> pageA" where
  "handleSubmit s =
     (let ans = trim (userInput_value s)
      in if ans \<noteq> [] then sendAnswer ans ((addMessage You ans s)\<lparr>userInput_value := []\<rparr>)
         else s)"

text \<open>The click listener of an option button (lines 88-91).\<close>

definition option_click :: "jsstring \<Rightarrow> pageA \<Rightarrow> pageA" where
  "option_click opt s = sendAnswer opt (addMessage You opt s)"

text \<open>
  The oldest outstanding \<open>fetch\<close> settles with \<open>r\<close>: the function that issued it
  runs on from its \<open>await\<close>; when it completes, a caller that awaits it runs its own
  remaining code, which is its \<open>finally\<close> block.
\<close>

definition respond :: "response \<Rightarrow> pageA \<Rightarrow> pageA" where
  "respond r s =
     (case awaiting s of
        [] \<Rightarrow> s
      | (f, caller) # rest \<Rightarrow>
          (let s0 = s\<lparr>awaiting := rest\<rparr>;
               s1 = (case f of
                       NextQ \<Rightarrow> getNextQuestion_resume r s0
                     | Answer \<Rightarrow> sendAnswer_resume r s0
                     | Reset \<Rightarrow> resetRecommender_resume r s0)
           in case caller of None \<Rightarrow> s1 | Some c \<Rightarrow> finally_block s1))"

text \<open>
  What can happen to the page: \<open>DOMContentLoaded\<close> (lines 17-30), a click on the
  submit control, on the reset control or on the \<open>i\<close>-th option button (a disabled
  control dispatches no click), the user typing into the input (not while it is
  disabled), and a response.
\<close>

datatype event =
  Load | ClickSubmit | ClickReset | ClickOption nat | Input jsstring | Response response

fun step :: "event \<Rightarrow> pageA \<Rightarrow> pageA" where
  "step Load s = getNextQuestion None s"
| "step ClickSubmit s = (if submitButton_disabled s then s else handleSubmit s)"
| "step ClickReset s = resetRecommender s"
| "step (ClickOption i) s =
     (if i < length (optionsDiv s) \<and> \<not> button_disabled (optionsDiv s ! i)
      then option_click (button_textContent (optionsDiv s ! i)) s else s)"
| "step (Input v) s = (if userInput_disabled s then s else s\<lparr>userInput_value := v\<rparr>)"
| "step (Response r) s = respond r s"

definition run :: "event list \<Rightarrow> pageA \<Rightarrow> pageA" where
  "run es s = foldl (\<lambda>s e. step e s) s es"

text \<open>The page of variant A before any event, for a given identifier.\<close>

definition initialA :: "jsstring \<Rightarrow> pageA" where
  "initialA uid =
     \<lparr>userId = uid, isFetching = False, conversationDiv = [], optionsDiv = [],
      userInput_value = [], userInput_disabled = False, submitButton_disabled = False,
      fetched = [], awaiting = []\<rparr>"


section \<open>Variant B (lines 188-276): /conversation\<close>

text \<open>
  In variant B the option buttons are appended to the conversation element itself, among
  the transcript lines. A button carries the class \<open>option-button\<close> and its label; a
  transcript line never carries that class.
\<close>

datatype node = Paragraph p_element | OptionButton jsstring

fun is_option_button :: "node \<Rightarrow> bool" where
  "is_option_button (OptionButton opt) = True"
| "is_option_button (Paragraph p) = False"

text \<open>
  Variant B has no in-flight flag and disables nothing. \<open>awaiting_B\<close> counts the
  \<open>fetch\<close> calls that have not settled yet.
\<close>

record pageB =
  userId_B :: jsstring
  conversationDiv_B :: "node list"
  userInput_value_B :: jsstring
  fetched_B :: "request list"
  awaiting_B :: nat

definition addMessage_B :: "sender \<Rightarrow> jsstring \<Rightarrow> pageB \<Rightarrow> pageB" where
  "addMessage_B sender text s =
     s\<lparr>conversationDiv_B := conversationDiv_B s @ [Paragraph (new_p sender text)]\<rparr>"

text \<open>\<open>document.querySelectorAll(".option-button").forEach((btn) => btn.remove())\<close>\<close>

definition remove_option_buttons :: "pageB \<Rightarrow> pageB" where
  "remove_option_buttons s =
     s\<lparr>conversationDiv_B := filter (\<lambda>n. \<not> is_option_button n) (conversationDiv_B s)\<rparr>"

definition addOptionButtons :: "jsstring list \<Rightarrow> pageB \<Rightarrow> pageB" where
  "addOptionButtons opts s =
     (let s1 = remove_option_buttons s
      in s1\<lparr>conversationDiv_B := conversationDiv_B s1 @ map OptionButton opts\<rparr>)"

definition conversation_request :: "jsstring \<Rightarrow> jsstring \<Rightarrow> request" where
  "conversation_request uid text =
     \<lparr>req_method = POST, req_url = serverUrl @ js ''/conversation?user_id='' @ uid,
      req_body = Some (js ''message'', text)\<rparr>"

text \<open>Lines 245-251, up to the first \<open>await\<close>.\<close>

definition sendChat :: "jsstring \<Rightarrow> pageB \<Rightarrow> pageB" where
  "sendChat text s =
     s\<lparr>fetched_B := fetched_B s @ [conversation_request (userId_B s) text],
       awaiting_B := Suc (awaiting_B s)\<rparr>"

definition catch_block_B :: "pageB \<Rightarrow> pageB" where
  "catch_block_B s = addMessage_B System (js ''Error connecting to server.'') s"

text \<open>Lines 252-270, from the response on.\<close>

definition sendChat_resume :: "response \<Rightarrow> pageB \<Rightarrow> pageB" where
  "sendChat_resume r s =
     (let s0 = s\<lparr>awaiting_B := awaiting_B s - 1\<rparr>
      in case r of
           Rejected \<Rightarrow> catch_block_B s0
         | JsonNull \<Rightarrow> catch_block_B s0
         | JsonObj data \<Rightarrow>
             (if truthy (r_error data) then addMessage_B System (the (r_error data)) s0
              else (let s1 = addMessage_B AI (template (r_message data)) s0
                    in case r_options data of
                         None \<Rightarrow> remove_option_buttons s1
                       | Some [] \<Rightarrow> remove_option_buttons s1
                       | Some (opt # opts) \<Rightarrow> addOptionButtons (opt # opts) s1)))"

definition handleSend :: "pageB \<Rightarrow> pageB" where
  "handleSend s =
     (let text = trim (userInput_value_B s)
      in if text = [] then s
         else sendChat text ((addMessage_B You text s)\<lparr>userInput_value_B := []\<rparr>))"

definition handleReset :: "pageB \<Rightarrow> pageB" where
  "handleReset s = sendChat (js ''reset'') (addMessage_B You (js ''reset'') s)"

text \<open>The click listener of an option button (lines 226-229).\<close>

definition option_click_B :: "jsstring \<Rightarrow> pageB \<Rightarrow> pageB" where
  "option_click_B opt s = sendChat opt (addMessage_B You opt s)"

definition initialB :: "jsstring \<Rightarrow> pageB" where
  "initialB uid =
     \<lparr>userId_B = uid, conversationDiv_B = [], userInput_value_B = [], fetched_B = [],
      awaiting_B = 0\<rparr>"


section \<open>Predicates and inputs of the properties\<close>

text \<open>
  The request gate of variant A as a state invariant: no call is outstanding exactly
  when the flag is clear, and an outstanding call is alone and awaited by no caller.
\<close>

definition gate_inv :: "pageA \<Rightarrow> bool" where
  "gate_inv s =
     (case awaiting s of
        [] \<Rightarrow> \<not> isFetching s
      | (f, caller) # rest \<Rightarrow> isFetching s \<and> caller = None \<and> rest = [])"

text \<open>
  A message contains the marker when \<open>Options:\<close>, in any letter case, occurs in it
  as a contiguous substring.
\<close>

definition has_marker :: "jsstring \<Rightarrow> bool" where
  "has_marker s = sublist (map canonicalize (js ''Options:'')) (map canonicalize s)"

text \<open>Joining pieces with commas, to state what \<open>split_comma\<close> computes.\<close>

fun join_comma :: "jsstring list \<Rightarrow> jsstring" where
  "join_comma [] = []"
| "join_comma [p] = p"
| "join_comma (p # q # ps) = p @ 0x2C # join_comma (q # ps)"

text \<open>A sequence of \<open>addMessage\<close> calls, in either variant.\<close>

definition addMessages :: "(sender \<times> jsstring) list \<Rightarrow> pageA \<Rightarrow> pageA" where
  "addMessages calls s = foldl (\<lambda>s (sender, text). addMessage sender text s) s calls"

definition addMessages_B :: "(sender \<times> jsstring) list \<Rightarrow> pageB \<Rightarrow> pageB" where
  "addMessages_B calls s = foldl (\<lambda>s (sender, text). addMessage_B sender text s) s calls"

text \<open>Response bodies and pages used as concrete inputs.\<close>

definition body :: "jsstring option \<Rightarrow> jsstring option \<Rightarrow> bool option \<Rightarrow> json_body" where
  "body e m d = \<lparr>r_error = e, r_message = m, r_done = d, r_options = None\<rparr>"

definition rose :: jsstring where
  "rose = js ''Ros'' @ [0xE9]"

definition pick_a_color :: jsstring where
  "pick_a_color = js ''Pick a color. Options: Red, White, '' @ rose"

definition typed :: "jsstring \<Rightarrow> pageA" where
  "typed v = (initialA (js ''1''))\<lparr>userInput_value := v\<rparr>"

definition typed_B :: "jsstring \<Rightarrow> pageB" where
  "typed_B v = (initialB (js ''1''))\<lparr>userInput_value_B := v\<rparr>"


section \<open>Strings\<close>

lemma digits_nonempty: "digits n \<noteq> []"
  by (subst digits.simps) simp

lemma toString_nonempty: "toString i \<noteq> []"
  by (simp add: toString_def digits_nonempty)

lemma truthy_Some: "truthy (Some t) = (t \<noteq> [])"
  by (simp add: truthy_def)

lemma truthy_None: "truthy None = False"
  by (simp add: truthy_def)

lemmas string_eval = js_def trim_def isWhiteSpace_def isLineTerminator_def canonicalize_def
  lower_unit_def toLowerCase_def template_def truthy_def rose_def


section \<open>Identity store\<close>


text \<open>
  C8. With empty storage the identity store generates the stringified current time,
  writes it under the key \<open>wine_userId\<close> and returns it; run again on the storage it
  left (whatever the storage was at first, and whatever the time is by then), it returns
  the same value and leaves the storage as it is.
\<close>

theorem identity_store_persistent:
  "init_userId now Map.empty = (toString now, [wine_userId \<mapsto> toString now]) \<and>
   fst (init_userId now' (snd (init_userId now ls))) = fst (init_userId now ls) \<and>
   snd (init_userId now' (snd (init_userId now ls))) = snd (init_userId now ls)"
  by (simp add: init_userId_def truthy_Some truthy_None toString_nonempty)

theorem identity_store_persistent_witness:
  "fst (init_userId 1730000000000 Map.empty) = js ''1730000000000'' \<and>
   fst (init_userId 1730000000777 (snd (init_userId 1730000000000 Map.empty))) =
     js ''1730000000000''"
proof -
  note t = identity_store_persistent [of 1730000000000 1730000000777 Map.empty]
  have d: "toString 1730000000000 = js ''1730000000000''"
    by (simp add: toString_def digits.simps js_def)
  have first: "fst (init_userId 1730000000000 Map.empty) = toString 1730000000000"
    by (simp only: t [THEN conjunct1] fst_conv)
  have again: "fst (init_userId 1730000000777 (snd (init_userId 1730000000000 Map.empty))) =
      fst (init_userId 1730000000000 Map.empty)"
    by (rule t [THEN conjunct2, THEN conjunct1])
  show ?thesis
    by (simp only: again first d)
qed

section \<open>Variant A: the request gate\<close>

lemma finally_fields:
  "isFetching (finally_block s) = False"
  "userInput_disabled (finally_block s) = False"
  "submitButton_disabled (finally_block s) = False"
  "awaiting (finally_block s) = awaiting s"
  "fetched (finally_block s) = fetched s"
  "conversationDiv (finally_block s) = conversationDiv s"
  "optionsDiv (finally_block s) = optionsDiv s"
  "userInput_value (finally_block s) = userInput_value s"
  "userId (finally_block s) = userId s"
  by (simp_all add: finally_block_def enableUI_def)

lemma addMessage_fields:
  "isFetching (addMessage x t s) = isFetching s"
  "userInput_disabled (addMessage x t s) = userInput_disabled s"
  "submitButton_disabled (addMessage x t s) = submitButton_disabled s"
  "awaiting (addMessage x t s) = awaiting s"
  "fetched (addMessage x t s) = fetched s"
  "conversationDiv (addMessage x t s) = conversationDiv s @ [new_p x t]"
  "optionsDiv (addMessage x t s) = optionsDiv s"
  "userInput_value (addMessage x t s) = userInput_value s"
  "userId (addMessage x t s) = userId s"
  by (simp_all add: addMessage_def)

lemma clear_page_fields:
  "isFetching (clear_page s) = isFetching s"
  "awaiting (clear_page s) = awaiting s"
  "fetched (clear_page s) = fetched s"
  "userId (clear_page s) = userId s"
  "conversationDiv (clear_page s) = []"
  "optionsDiv (clear_page s) = []"
  "userInput_value (clear_page s) = []"
  by (simp_all add: clear_page_def)

text \<open>A call made while the flag is set returns at its first line.\<close>

lemma gated_noop:
  "isFetching s \<Longrightarrow> getNextQuestion c s = s"
  "isFetching s \<Longrightarrow> sendAnswer a s = s"
  "isFetching s \<Longrightarrow> resetRecommender s = s"
  by (simp_all add: getNextQuestion_def sendAnswer_def resetRecommender_def)

lemma await_gated: "isFetching s \<Longrightarrow> await_getNextQuestion c s = finally_block s"
  by (simp add: await_getNextQuestion_def gated_noop)

text \<open>A call made while the flag is clear issues its request.\<close>

lemma issue_fields:
  "\<not> isFetching s \<Longrightarrow>
     isFetching (getNextQuestion c s) \<and>
     awaiting (getNextQuestion c s) = awaiting s @ [(NextQ, c)] \<and>
     fetched (getNextQuestion c s) = fetched s @ [next_question_request (userId s)]"
  "\<not> isFetching s \<Longrightarrow>
     isFetching (sendAnswer a s) \<and>
     awaiting (sendAnswer a s) = awaiting s @ [(Answer, None)] \<and>
     fetched (sendAnswer a s) = fetched s @ [answer_request (userId s) a]"
  "\<not> isFetching s \<Longrightarrow>
     isFetching (resetRecommender s) \<and>
     awaiting (resetRecommender s) = awaiting s @ [(Reset, None)] \<and>
     fetched (resetRecommender s) = fetched s @ [reset_request (userId s)]"
  by (simp_all add: getNextQuestion_def sendAnswer_def resetRecommender_def fetch_def
      disableUI_def)

lemma getNextQuestion_resume_fields:
  "isFetching (getNextQuestion_resume r s) = False"
  "userInput_disabled (getNextQuestion_resume r s) = False"
  "submitButton_disabled (getNextQuestion_resume r s) = False"
  "awaiting (getNextQuestion_resume r s) = awaiting s"
  "fetched (getNextQuestion_resume r s) = fetched s"
  "userId (getNextQuestion_resume r s) = userId s"
  by (simp_all add: getNextQuestion_resume_def finally_fields catch_block_def addMessage_fields
      Let_def split: response.split option.split)

text \<open>
  With the flag still set, the \<open>await getNextQuestion()\<close> of lines 126 and 166 is a
  call that returns at line 61.
\<close>

lemma sendAnswer_resume_obj:
  "isFetching s \<Longrightarrow>
   sendAnswer_resume (JsonObj data) s =
     finally_block (addMessage AI (template (r_message data)) s)"
  by (simp add: sendAnswer_resume_def Let_def await_gated addMessage_fields)

lemma resetRecommender_resume_obj:
  "isFetching s \<Longrightarrow>
   resetRecommender_resume (JsonObj data) s =
     finally_block (addMessage System
       (if truthy (r_message data) then the (r_message data)
        else js ''Session reset. Starting fresh...'') (clear_page s))"
  by (simp add: resetRecommender_resume_def Let_def await_gated addMessage_fields
      clear_page_fields)

lemma sendAnswer_resume_fields:
  assumes "isFetching s"
  shows "isFetching (sendAnswer_resume r s) = False"
    "userInput_disabled (sendAnswer_resume r s) = False"
    "submitButton_disabled (sendAnswer_resume r s) = False"
    "awaiting (sendAnswer_resume r s) = awaiting s"
    "fetched (sendAnswer_resume r s) = fetched s"
    "userId (sendAnswer_resume r s) = userId s"
  using assms
  by (cases r; simp add: sendAnswer_resume_obj finally_fields addMessage_fields;
      simp add: sendAnswer_resume_def finally_fields catch_block_def addMessage_fields)+

lemma resetRecommender_resume_fields:
  assumes "isFetching s"
  shows "isFetching (resetRecommender_resume r s) = False"
    "userInput_disabled (resetRecommender_resume r s) = False"
    "submitButton_disabled (resetRecommender_resume r s) = False"
    "awaiting (resetRecommender_resume r s) = awaiting s"
    "fetched (resetRecommender_resume r s) = fetched s"
    "userId (resetRecommender_resume r s) = userId s"
  using assms
  by (cases r; simp add: resetRecommender_resume_obj finally_fields addMessage_fields
      clear_page_fields;
      simp add: resetRecommender_resume_def finally_fields catch_block_def addMessage_fields
      clear_page_fields)+

subsection \<open>The invariant\<close>

lemma gate_inv_cases:
  "gate_inv s \<Longrightarrow>
   (\<not> isFetching s \<and> awaiting s = []) \<or> (isFetching s \<and> (\<exists>f. awaiting s = [(f, None)]))"
  by (auto simp: gate_inv_def split: list.splits)

lemma gate_inv_head:
  assumes "gate_inv s" and "awaiting s = (f, c) # rest"
  shows "isFetching s" and "c = None" and "rest = []"
  using assms by (simp_all add: gate_inv_def)

lemma gate_inv_call:
  assumes "gate_inv s"
  shows "gate_inv (getNextQuestion None s)"
    and "gate_inv (sendAnswer a s)"
    and "gate_inv (resetRecommender s)"
  using gate_inv_cases [OF assms]
  by (auto simp: gated_noop issue_fields gate_inv_def)

lemma respond_idle: "awaiting s = [] \<Longrightarrow> respond r s = s"
  by (simp add: respond_def)

lemma respond_head:
  assumes "gate_inv s" and "awaiting s = (f, c) # rest"
  shows "respond r s =
    (case f of
       NextQ \<Rightarrow> getNextQuestion_resume r (s\<lparr>awaiting := []\<rparr>)
     | Answer \<Rightarrow> sendAnswer_resume r (s\<lparr>awaiting := []\<rparr>)
     | Reset \<Rightarrow> resetRecommender_resume r (s\<lparr>awaiting := []\<rparr>))"
  using gate_inv_head [OF assms] assms(2) by (simp add: respond_def Let_def)

lemma respond_settles:
  assumes "gate_inv s" and "awaiting s \<noteq> []"
  shows "isFetching (respond r s) = False"
    and "userInput_disabled (respond r s) = False"
    and "submitButton_disabled (respond r s) = False"
    and "awaiting (respond r s) = []"
    and "fetched (respond r s) = fetched s"
    and "userId (respond r s) = userId s"
proof -
  from assms obtain f c rest where a: "awaiting s = (f, c) # rest"
    by (cases "awaiting s") auto
  have i: "isFetching (s\<lparr>awaiting := []\<rparr>)"
    using gate_inv_head(1) [OF assms(1) a] by simp
  show "isFetching (respond r s) = False"
    and "userInput_disabled (respond r s) = False"
    and "submitButton_disabled (respond r s) = False"
    and "awaiting (respond r s) = []"
    and "fetched (respond r s) = fetched s"
    and "userId (respond r s) = userId s"
    by (cases f; simp add: respond_head [OF assms(1) a] getNextQuestion_resume_fields
        sendAnswer_resume_fields [OF i] resetRecommender_resume_fields [OF i])+
qed

lemma gate_inv_respond: "gate_inv s \<Longrightarrow> gate_inv (respond r s)"
  by (cases "awaiting s = []") (simp_all add: respond_idle respond_settles gate_inv_def)

lemma gate_inv_addMessage: "gate_inv s \<Longrightarrow> gate_inv (addMessage x t s)"
  by (auto simp: gate_inv_def addMessage_fields split: list.splits)

lemma gate_inv_input: "gate_inv s \<Longrightarrow> gate_inv (s\<lparr>userInput_value := v\<rparr>)"
  by (auto simp: gate_inv_def split: list.splits)

lemma gate_inv_step: "gate_inv s \<Longrightarrow> gate_inv (step e s)"
  by (cases e)
    (simp_all add: gate_inv_call gate_inv_respond handleSubmit_def option_click_def Let_def
      gate_inv_addMessage gate_inv_input)

lemma gate_inv_run: "gate_inv s \<Longrightarrow> gate_inv (run es s)"
  unfolding run_def by (induction es arbitrary: s) (simp_all add: gate_inv_step)

lemma gate_inv_initial: "gate_inv (initialA uid)"
  by (simp add: gate_inv_def initialA_def)

text \<open>Unfolding the page functions on a concrete run.\<close>

lemmas run_eval = run_def initialA_def getNextQuestion_def sendAnswer_def resetRecommender_def
  fetch_def disableUI_def enableUI_def finally_block_def catch_block_def addMessage_def
  respond_def getNextQuestion_resume_def sendAnswer_resume_def resetRecommender_resume_def
  await_getNextQuestion_def clear_page_def handleSubmit_def option_click_def Let_def
  message_or_empty_def match_at_def new_button_def body_def

subsection \<open>Claims about the gate\<close>

text \<open>
  C1 (the code departs from the claim). In variant A, whenever the response to a
  submit-answer call arrives with \<open>done\<close> false, the AI line is appended, and the
  \<open>getNextQuestion\<close> call that follows returns at its gate, because the flag set by
  \<open>sendAnswer\<close> is still set: no request is issued and nothing is left in flight.
\<close>

theorem answer_not_done_issues_no_fetch:
  assumes "gate_inv s0" and "s = run es s0" and "awaiting s = (Answer, c) # rest"
    and "r_done data = Some False"
  shows "fetched (respond (JsonObj data) s) = fetched s \<and>
         awaiting (respond (JsonObj data) s) = [] \<and>
         conversationDiv (respond (JsonObj data) s) =
           conversationDiv s @ [new_p AI (template (r_message data))]"
proof -
  have g: "gate_inv s"
    using assms(1,2) by (simp add: gate_inv_run)
  have i: "isFetching (s\<lparr>awaiting := []\<rparr>)"
    using gate_inv_head(1) [OF g assms(3)] by simp
  show ?thesis
    by (simp add: respond_head [OF g assms(3)] sendAnswer_resume_obj [OF i]
        finally_fields addMessage_fields)
qed

theorem answer_not_done_issues_no_fetch_witness:
  "fetched (respond (JsonObj (body None (Some (js ''Noted.'')) (Some False)))
     (run [Load,
           Response (JsonObj (body None (Some (js ''Which? Options: Red, White'')) None)),
           ClickOption 0] (initialA (js ''1'')))) =
   [next_question_request (js ''1''), answer_request (js ''1'') (js ''Red'')]"
proof -
  let ?es = "[Load,
           Response (JsonObj (body None (Some (js ''Which? Options: Red, White'')) None)),
           ClickOption 0]"
  have a: "awaiting (run ?es (initialA (js ''1''))) = (Answer, None) # []"
    by (simp add: run_eval string_eval)
  have f: "fetched (run ?es (initialA (js ''1''))) =
      [next_question_request (js ''1''), answer_request (js ''1'') (js ''Red'')]"
    by (simp add: run_eval string_eval)
  have d: "r_done (body None (Some (js ''Noted.'')) (Some False)) = Some False"
    by (simp add: body_def)
  show ?thesis
    using answer_not_done_issues_no_fetch [OF gate_inv_initial refl a d] f by simp
qed

text \<open>
  C4 (the code departs from the claim). In variant A, whenever the response to a reset
  call arrives as a JSON object, the transcript is replaced by the one System line (the
  server's message, or the fallback string when the message is absent or empty), the
  option set and the input are empty, and the \<open>getNextQuestion\<close> call that follows
  returns at its gate: no request to /next_question is issued and nothing is in flight.
\<close>

theorem reset_clears_and_issues_no_fetch:
  assumes "gate_inv s0" and "s = run es s0" and "awaiting s = (Reset, c) # rest"
  shows "conversationDiv (respond (JsonObj data) s) =
           [new_p System (if truthy (r_message data) then the (r_message data)
                          else js ''Session reset. Starting fresh...'')] \<and>
         optionsDiv (respond (JsonObj data) s) = [] \<and>
         userInput_value (respond (JsonObj data) s) = [] \<and>
         fetched (respond (JsonObj data) s) = fetched s \<and>
         awaiting (respond (JsonObj data) s) = []"
proof -
  have g: "gate_inv s"
    using assms(1,2) by (simp add: gate_inv_run)
  have i: "isFetching (s\<lparr>awaiting := []\<rparr>)"
    using gate_inv_head(1) [OF g assms(3)] by simp
  show ?thesis
    by (simp add: respond_head [OF g assms(3)] resetRecommender_resume_obj [OF i]
        finally_fields addMessage_fields clear_page_fields)
qed

theorem reset_clears_and_issues_no_fetch_witness:
  "fetched (respond (JsonObj (body None (Some (js ''Session reset.'')) None))
     (run [Load, Response (JsonObj (body None (Some (js ''Which?'')) None)), ClickReset]
        (initialA (js ''1'')))) =
   [next_question_request (js ''1''), reset_request (js ''1'')] \<and>
   map p_textContent (conversationDiv
     (respond (JsonObj (body None (Some (js ''Session reset.'')) None))
       (run [Load, Response (JsonObj (body None (Some (js ''Which?'')) None)), ClickReset]
          (initialA (js ''1''))))) =
   [js ''System: Session reset.'']"
proof -
  let ?es = "[Load, Response (JsonObj (body None (Some (js ''Which?'')) None)), ClickReset]"
  have a: "awaiting (run ?es (initialA (js ''1''))) = (Reset, None) # []"
    by (simp add: run_eval string_eval)
  have f: "fetched (run ?es (initialA (js ''1''))) =
      [next_question_request (js ''1''), reset_request (js ''1'')]"
    by (simp add: run_eval string_eval)
  show ?thesis
    using reset_clears_and_issues_no_fetch [OF gate_inv_initial refl a,
        of "body None (Some (js ''Session reset.'')) None"] f
    by (simp add: body_def truthy_def new_p_def js_def)
qed

text \<open>
  C2 (amended). In variant A, in every state the page can reach, at most one call is
  outstanding; while one is, each of the three network operations is a no-op when
  triggered (the page, and with it the log of requests, is unchanged). After the
  outstanding call settles, with whatever response, nothing is outstanding, the settling
  itself has issued no request, and each operation triggered next issues exactly its one
  request and is then the outstanding call. The send-chat operation of variant B has no
  gate: every call issues its request.
\<close>

theorem request_gate_variant_A:
  assumes "gate_inv s0" and "s = run es s0" and "s' = respond r s"
  shows "(awaiting s \<noteq> [] \<longrightarrow>
            getNextQuestion None s = s \<and> sendAnswer a s = s \<and> resetRecommender s = s) \<and>
         length (awaiting s) \<le> 1 \<and>
         awaiting s' = [] \<and> fetched s' = fetched s \<and>
         fetched (getNextQuestion None s') = fetched s' @ [next_question_request (userId s')] \<and>
         awaiting (getNextQuestion None s') = [(NextQ, None)] \<and>
         fetched (sendAnswer a s') = fetched s' @ [answer_request (userId s') a] \<and>
         awaiting (sendAnswer a s') = [(Answer, None)] \<and>
         fetched (resetRecommender s') = fetched s' @ [reset_request (userId s')] \<and>
         awaiting (resetRecommender s') = [(Reset, None)] \<and>
         fetched_B (sendChat text b) = fetched_B b @ [conversation_request (userId_B b) text]"
proof -
  have g: "gate_inv s"
    using assms(1,2) by (simp add: gate_inv_run)
  have chat: "fetched_B (sendChat text b) =
      fetched_B b @ [conversation_request (userId_B b) text]"
    by (simp add: sendChat_def)
  have busy: "awaiting s \<noteq> [] \<Longrightarrow> isFetching s"
    using gate_inv_cases [OF g] by auto
  have one: "length (awaiting s) \<le> 1"
    using gate_inv_cases [OF g] by auto
  have idle: "awaiting s' = [] \<and> \<not> isFetching s' \<and> fetched s' = fetched s"
  proof (cases "awaiting s = []")
    case True
    then show ?thesis
      using gate_inv_cases [OF g] assms(3) by (auto simp: respond_idle)
  next
    case False
    then show ?thesis
      using respond_settles [OF g False] assms(3) by simp
  qed
  then have free: "\<not> isFetching s'" and none: "awaiting s' = []" and same: "fetched s' = fetched s"
    by simp_all
  show ?thesis
    using busy one none same issue_fields(1) [OF free, of None] issue_fields(2) [OF free, of a]
      issue_fields(3) [OF free] chat
    by (simp add: gated_noop)
qed

theorem request_gate_variant_A_witness:
  "sendAnswer (js ''Red'') (run [Load] (initialA (js ''1''))) = run [Load] (initialA (js ''1'')) \<and>
   fetched (run [Load] (initialA (js ''1''))) = [next_question_request (js ''1'')] \<and>
   fetched (sendAnswer (js ''Red'') (respond Rejected (run [Load] (initialA (js ''1''))))) =
     [next_question_request (js ''1''), answer_request (js ''1'') (js ''Red'')]"
proof -
  have a: "awaiting (run [Load] (initialA (js ''1''))) \<noteq> []"
    by (simp add: run_eval)
  have f: "fetched (run [Load] (initialA (js ''1''))) = [next_question_request (js ''1'')]"
    by (simp add: run_eval)
  have u: "userId (respond Rejected (run [Load] (initialA (js ''1'')))) = js ''1''"
    by (simp add: run_eval)
  show ?thesis
    using request_gate_variant_A [OF gate_inv_initial [of "js ''1''"] refl refl,
        where es = "[Load]" and a = "js ''Red''" and r = Rejected] a f u
    by simp
qed

text \<open>
  C2 as stated, for every network operation, fails on \<open>sendChat\<close> of variant B,
  which has no gate: with one call outstanding, a second call issues a second request.
\<close>

theorem sendChat_not_gated_counterexample:
  "awaiting_B (sendChat (js ''sweet'') (initialB (js ''1''))) = 1 \<and>
   fetched_B (sendChat (js ''dry'') (sendChat (js ''sweet'') (initialB (js ''1'')))) =
     [conversation_request (js ''1'') (js ''sweet''),
      conversation_request (js ''1'') (js ''dry'')]"
  by (simp add: sendChat_def initialB_def)

text \<open>
  C6. In variant A, in every state the page can reach with a call outstanding, whichever
  of the three operations issued it, the arrival of its response, of whatever kind
  (an object, with or without an error field, the body \<open>null\<close>, or a rejected
  promise), clears the flag, re-enables the input and the submit control, and leaves
  nothing outstanding.
\<close>

theorem completion_clears_gate:
  assumes "gate_inv s0" and "s = run es s0" and "awaiting s = (f, c) # rest"
  shows "isFetching (respond r s) = False \<and>
         userInput_disabled (respond r s) = False \<and>
         submitButton_disabled (respond r s) = False \<and>
         awaiting (respond r s) = []"
proof -
  have g: "gate_inv s"
    using assms(1,2) by (simp add: gate_inv_run)
  have "awaiting s \<noteq> []"
    using assms(3) by simp
  then show ?thesis
    by (simp add: respond_settles [OF g])
qed

theorem completion_clears_gate_witness:
  "userInput_disabled (run [Load] (initialA (js ''1''))) = True \<and>
   userInput_disabled (respond Rejected (run [Load] (initialA (js ''1'')))) = False \<and>
   isFetching (respond JsonNull (run [ClickReset] (initialA (js ''1'')))) = False \<and>
   submitButton_disabled
     (respond (JsonObj (body (Some (js ''No session'')) None None))
        (run [Input (js ''Red''), ClickSubmit] (initialA (js ''1'')))) = False"
proof -
  have a1: "awaiting (run [Load] (initialA (js ''1''))) = (NextQ, None) # []"
    by (simp add: run_eval)
  have a2: "awaiting (run [ClickReset] (initialA (js ''1''))) = (Reset, None) # []"
    by (simp add: run_eval)
  have a3: "awaiting (run [Input (js ''Red''), ClickSubmit] (initialA (js ''1''))) =
      (Answer, None) # []"
    by (simp add: run_eval string_eval)
  have d: "userInput_disabled (run [Load] (initialA (js ''1''))) = True"
    by (simp add: run_eval)
  show ?thesis
    using completion_clears_gate [OF gate_inv_initial refl a1, of Rejected]
      completion_clears_gate [OF gate_inv_initial refl a2, of JsonNull]
      completion_clears_gate [OF gate_inv_initial refl a3,
        of "JsonObj (body (Some (js ''No session'')) None None)"] d
    by simp
qed

section \<open>Responses that carry an error field\<close>

lemma addMessage_B_conversation:
  "conversationDiv_B (addMessage_B x t b) = conversationDiv_B b @ [Paragraph (new_p x t)]"
  by (simp add: addMessage_B_def)

text \<open>
  C3 (amended). A JSON response carrying a non-empty \<open>error\<close> string is shown as
  exactly one new System line, \<open>System: \<close> followed by the error and with the class
  \<open>system\<close>, and no AI line, by the fetch-next-prompt operation of variant A and by
  the send-chat operation of variant B.
\<close>

theorem error_field_shown_as_System:
  assumes "r_error data = Some e" and "e \<noteq> []"
  shows "conversationDiv (getNextQuestion_resume (JsonObj data) s) =
           conversationDiv s @ [new_p System e] \<and>
         conversationDiv_B (sendChat_resume (JsonObj data) b) =
           conversationDiv_B b @ [Paragraph (new_p System e)] \<and>
         p_textContent (new_p System e) = js ''System: '' @ e \<and>
         p_classList (new_p System e) = [js ''system'']"
proof -
  have t: "truthy (r_error data)" and v: "the (r_error data) = e"
    using assms by (simp_all add: truthy_def)
  have 1: "conversationDiv (getNextQuestion_resume (JsonObj data) s) =
      conversationDiv s @ [new_p System e]"
    using t v
    by (simp add: getNextQuestion_resume_def finally_fields addMessage_fields Let_def
        split: option.split)
  have 2: "conversationDiv_B (sendChat_resume (JsonObj data) b) =
      conversationDiv_B b @ [Paragraph (new_p System e)]"
    using t v by (simp add: sendChat_resume_def Let_def addMessage_B_conversation)
  have 3: "p_textContent (new_p System e) = js ''System: '' @ e"
    by (simp add: new_p_def js_def)
  have 4: "p_classList (new_p System e) = [js ''system'']"
    by (simp add: new_p_def string_eval)
  show ?thesis
    using 1 2 3 4 by (simp only: simp_thms)
qed

theorem error_field_shown_as_System_witness:
  "map p_textContent (conversationDiv
     (getNextQuestion_resume (JsonObj (body (Some (js ''No session'')) None None))
        (run [Load] (initialA (js ''1''))))) = [js ''System: No session'']"
proof -
  have e: "r_error (body (Some (js ''No session'')) None None) = Some (js ''No session'')"
    by (simp add: body_def)
  have n: "js ''No session'' \<noteq> []"
    by (simp add: js_def)
  have c: "conversationDiv (run [Load] (initialA (js ''1''))) = []"
    by (simp add: run_eval)
  show ?thesis
    using error_field_shown_as_System [OF e n, of "run [Load] (initialA (js ''1''))"] c
    by (simp add: js_def)
qed

text \<open>
  C3 as stated, for every operation, fails on the submit-answer operation of variant A:
  the response \<open>{error: "No session"}\<close> to an answer is rendered as the AI line
  \<open>AI: undefined\<close>, and the error text is shown nowhere.
\<close>

theorem answer_error_not_shown_counterexample:
  "map p_textContent (conversationDiv
     (respond (JsonObj (body (Some (js ''No session'')) None None))
        (run [Input (js ''Red''), ClickSubmit] (initialA (js ''1''))))) =
   [js ''You: Red'', js ''AI: undefined'']"
  by (simp add: run_eval string_eval new_p_def)

section \<open>Variant A: options extracted from the message\<close>

lemma match_literal_eq:
  "match_literal p s =
     (if prefix (map canonicalize p) (map canonicalize s) then Some (drop (length p) s)
      else None)"
  by (induction p s rule: match_literal.induct) auto

lemma match_at_None:
  "match_at s = None \<longleftrightarrow> \<not> prefix (map canonicalize (js ''Options:'')) (map canonicalize s)"
  by (simp add: match_at_def match_literal_eq)

lemma marker_nonempty: "map canonicalize (js ''Options:'') \<noteq> []"
  by (simp add: js_def)

text \<open>The search finds nothing exactly when the message has no marker.\<close>

lemma options_regex_None: "options_regex s = None \<longleftrightarrow> \<not> has_marker s"
proof (induction s)
  case Nil
  then show ?case
    using marker_nonempty by (simp add: has_marker_def match_at_None)
next
  case (Cons c cs)
  show ?case
  proof (cases "match_at (c # cs)")
    case None
    then show ?thesis
      using Cons.IH match_at_None [of "c # cs"]
      by (simp add: has_marker_def sublist_Cons_right)
  next
    case (Some g)
    then have "prefix (map canonicalize (js ''Options:'')) (map canonicalize (c # cs))"
      using match_at_None [of "c # cs"] by simp
    then have "has_marker (c # cs)"
      unfolding has_marker_def by (rule prefix_imp_sublist)
    then show ?thesis
      using Some by simp
  qed
qed

lemma prefix_append_short:
  assumes "prefix p (a @ b)" and "length p \<le> length a"
  shows "prefix p a"
proof -
  from assms(1) obtain zs where "a @ b = p @ zs"
    by (auto simp: prefix_def)
  then have "take (length p) (a @ b) = p"
    by simp
  then have "take (length p) a = p"
    using assms(2) by simp
  then show ?thesis
    by (metis take_is_prefix)
qed

lemma options_regex_here: "match_at s = Some g \<Longrightarrow> options_regex s = Some g"
  by (cases s) simp_all

lemma match_at_marker:
  assumes "map canonicalize m = map canonicalize (js ''Options:'')"
  shows "match_at (m @ rest) =
    Some (takeWhile (\<lambda>c. \<not> isLineTerminator c) (dropWhile isWhiteSpace rest))"
proof -
  have "length m = length (js ''Options:'')"
    using assms by (metis length_map)
  then show ?thesis
    using assms by (simp add: match_at_def match_literal_eq)
qed

text \<open>
  The match is at the first marker: when no marker starts before \<open>m\<close>, the group is
  taken from the text after \<open>m\<close>.
\<close>

lemma options_regex_leftmost:
  assumes "map canonicalize m = map canonicalize (js ''Options:'')"
    and "\<not> has_marker (pre @ butlast m)"
  shows "options_regex (pre @ m @ rest) =
    Some (takeWhile (\<lambda>c. \<not> isLineTerminator c) (dropWhile isWhiteSpace rest))"
  using assms(2)
proof (induction pre)
  case Nil
  then show ?case
    by (simp add: options_regex_here match_at_marker [OF assms(1)])
next
  case (Cons c pre)
  let ?P = "map canonicalize (js ''Options:'')"
  have len: "length m = length ?P"
    using assms(1) by (metis length_map)
  have mne: "m \<noteq> []"
    using len by (auto simp: js_def)
  have parts: "(c # pre) @ m @ rest = ((c # pre) @ butlast m) @ (last m # rest)"
    using mne by simp
  have none: "match_at ((c # pre) @ m @ rest) = None"
  proof (rule ccontr)
    assume "match_at ((c # pre) @ m @ rest) \<noteq> None"
    then have p: "prefix ?P (map canonicalize (((c # pre) @ butlast m) @ (last m # rest)))"
      using parts by (simp only: match_at_None) simp
    have "length ?P \<le> length (map canonicalize ((c # pre) @ butlast m))"
      using len by simp
    with p have "prefix ?P (map canonicalize ((c # pre) @ butlast m))"
      by (simp only: map_append) (rule prefix_append_short)
    then have "has_marker ((c # pre) @ butlast m)"
      unfolding has_marker_def by (rule prefix_imp_sublist)
    with Cons.prems show False by simp
  qed
  have "\<not> has_marker (pre @ butlast m)"
    using Cons.prems by (simp add: has_marker_def sublist_Cons_right)
  then have "options_regex (pre @ m @ rest) =
      Some (takeWhile (\<lambda>c. \<not> isLineTerminator c) (dropWhile isWhiteSpace rest))"
    by (rule Cons.IH)
  then show ?case
    using none by simp
qed

text \<open>
  \<open>split_comma\<close> cuts at every comma and nowhere else: no piece holds a comma, and
  the pieces joined with commas give the string back.
\<close>

lemma split_comma_nonempty: "split_comma s \<noteq> []"
  by (induction s) (simp_all split: list.split)

lemma split_comma_pieces: "piece \<in> set (split_comma s) \<Longrightarrow> 0x2C \<notin> set piece"
  by (induction s arbitrary: piece) (auto split: list.splits if_splits)

lemma join_comma_Cons: "join_comma ((c # p) # ps) = c # join_comma (p # ps)"
  by (cases ps) simp_all

lemma split_comma_join: "join_comma (split_comma s) = s"
proof (induction s)
  case Nil
  then show ?case by simp
next
  case (Cons c cs)
  obtain p ps where sp: "split_comma cs = p # ps"
    using split_comma_nonempty [of cs] by (cases "split_comma cs") auto
  show ?case
  proof (cases "c = 0x2C")
    case True
    then show ?thesis
      using Cons.IH sp by simp
  next
    case False
    then show ?thesis
      using Cons.IH sp by (simp add: join_comma_Cons)
  qed
qed

lemma getNextQuestion_resume_options:
  "optionsDiv (getNextQuestion_resume (JsonObj data) s) =
     (case options_regex (message_or_empty data) of
        None \<Rightarrow> []
      | Some optionsStr \<Rightarrow> map new_button (map trim (split_comma optionsStr)))"
  by (simp add: getNextQuestion_resume_def finally_block_def enableUI_def addMessage_def Let_def
      split: option.split)

lemma pick_a_color_regex: "options_regex pick_a_color = Some (js ''Red, White, '' @ rose)"
  by (simp add: pick_a_color_def match_at_def string_eval)

lemma pick_a_color_pieces:
  "map trim (split_comma (js ''Red, White, '' @ rose)) = [js ''Red'', js ''White'', rose]"
  by (simp add: string_eval)

text \<open>
  C5 (amended). In variant A, when the message has no \<open>Options:\<close> marker (in any
  letter case), or is absent, no option button is rendered. When it has one, the text
  after the first marker, with the whitespace that follows the marker skipped and then
  up to the end of that line, is split on commas, each piece is whitespace-trimmed, and
  one enabled button is rendered per piece, in order, empty pieces included. For the
  message \<open>pick_a_color\<close> (\<open>Pick a color. Options: Red, White, Ros\<close> and the
  letter U+00E9) the button labels are exactly \<open>Red\<close>, \<open>White\<close> and \<open>rose\<close>
  (\<open>Ros\<close> and U+00E9).
\<close>

theorem options_extracted_from_marker:
  "(\<not> has_marker (message_or_empty data) \<longrightarrow>
      optionsDiv (getNextQuestion_resume (JsonObj data) s) = []) \<and>
   (message_or_empty data = pre @ m @ rest \<and>
    map canonicalize m = map canonicalize (js ''Options:'') \<and>
    \<not> has_marker (pre @ butlast m) \<longrightarrow>
      optionsDiv (getNextQuestion_resume (JsonObj data) s) =
        map (\<lambda>piece. \<lparr>button_textContent = trim piece, button_disabled = False\<rparr>)
          (split_comma
             (takeWhile (\<lambda>c. \<not> isLineTerminator c) (dropWhile isWhiteSpace rest)))) \<and>
   (r_message data = Some pick_a_color \<longrightarrow>
      map button_textContent (optionsDiv (getNextQuestion_resume (JsonObj data) s)) =
        [js ''Red'', js ''White'', rose])"
proof -
  have 1: "\<not> has_marker (message_or_empty data) \<Longrightarrow>
      optionsDiv (getNextQuestion_resume (JsonObj data) s) = []"
    using options_regex_None [of "message_or_empty data"]
    by (simp add: getNextQuestion_resume_options)
  have 2: "message_or_empty data = pre @ m @ rest \<Longrightarrow>
      map canonicalize m = map canonicalize (js ''Options:'') \<Longrightarrow>
      \<not> has_marker (pre @ butlast m) \<Longrightarrow>
      optionsDiv (getNextQuestion_resume (JsonObj data) s) =
        map (\<lambda>piece. \<lparr>button_textContent = trim piece, button_disabled = False\<rparr>)
          (split_comma
             (takeWhile (\<lambda>c. \<not> isLineTerminator c) (dropWhile isWhiteSpace rest)))"
    using options_regex_leftmost [of m pre rest]
    by (simp add: getNextQuestion_resume_options new_button_def comp_def)
  have ne: "pick_a_color \<noteq> []"
    by (simp add: pick_a_color_def js_def)
  have 3: "r_message data = Some pick_a_color \<Longrightarrow>
      map button_textContent (optionsDiv (getNextQuestion_resume (JsonObj data) s)) =
        [js ''Red'', js ''White'', rose]"
    using ne pick_a_color_pieces
    by (simp add: getNextQuestion_resume_options message_or_empty_def truthy_def
        pick_a_color_regex new_button_def comp_def)
  show ?thesis
    using 1 2 3 by blast
qed

theorem options_extracted_from_marker_witness:
  "map button_textContent (optionsDiv
     (getNextQuestion_resume (JsonObj (body None (Some pick_a_color) None))
        (initialA (js ''1'')))) = [js ''Red'', js ''White'', rose] \<and>
   optionsDiv
     (getNextQuestion_resume (JsonObj (body None (Some (js ''Which wine do you like?'')) None))
        (initialA (js ''1''))) = [] \<and>
   map button_textContent (optionsDiv
     (getNextQuestion_resume (JsonObj (body None (Some (js ''Colour? OPTIONS:  red ,white'')) None))
        (initialA (js ''1'')))) = [js ''red'', js ''white'']"
proof -
  have m1: "r_message (body None (Some pick_a_color) None) = Some pick_a_color"
    by (simp add: body_def)
  have m2: "\<not> has_marker
      (message_or_empty (body None (Some (js ''Which wine do you like?'')) None))"
    by (simp add: message_or_empty_def body_def has_marker_def string_eval sublist_Cons_right)
  have m3: "message_or_empty (body None (Some (js ''Colour? OPTIONS:  red ,white'')) None) =
        js ''Colour? '' @ js ''OPTIONS:'' @ js ''  red ,white'' \<and>
      map canonicalize (js ''OPTIONS:'') = map canonicalize (js ''Options:'') \<and>
      \<not> has_marker (js ''Colour? '' @ butlast (js ''OPTIONS:''))"
    by (simp add: message_or_empty_def body_def has_marker_def string_eval sublist_Cons_right)
  have p3: "map trim (split_comma
      (takeWhile (\<lambda>c. \<not> isLineTerminator c) (dropWhile isWhiteSpace (js ''  red ,white'')))) =
      [js ''red'', js ''white'']"
    by (simp add: string_eval)
  have t1: "map button_textContent (optionsDiv
     (getNextQuestion_resume (JsonObj (body None (Some pick_a_color) None))
        (initialA (js ''1'')))) = [js ''Red'', js ''White'', rose]"
    using options_extracted_from_marker [of "body None (Some pick_a_color) None"] m1 by blast
  have t2: "optionsDiv
     (getNextQuestion_resume (JsonObj (body None (Some (js ''Which wine do you like?'')) None))
        (initialA (js ''1''))) = []"
    using options_extracted_from_marker
      [of "body None (Some (js ''Which wine do you like?'')) None"] m2 by blast
  have t3: "optionsDiv
     (getNextQuestion_resume (JsonObj (body None (Some (js ''Colour? OPTIONS:  red ,white'')) None))
        (initialA (js ''1''))) =
      map (\<lambda>piece. \<lparr>button_textContent = trim piece, button_disabled = False\<rparr>)
          (split_comma (takeWhile (\<lambda>c. \<not> isLineTerminator c)
             (dropWhile isWhiteSpace (js ''  red ,white''))))"
    using options_extracted_from_marker
      [where data = "body None (Some (js ''Colour? OPTIONS:  red ,white'')) None"
        and pre = "js ''Colour? ''" and m = "js ''OPTIONS:''" and rest = "js ''  red ,white''"
        and s = "initialA (js ''1'')"] m3
    by blast
  have t3': "map button_textContent (optionsDiv
     (getNextQuestion_resume (JsonObj (body None (Some (js ''Colour? OPTIONS:  red ,white'')) None))
        (initialA (js ''1'')))) = [js ''red'', js ''white'']"
    using p3 by (simp only: t3 map_map comp_def button.simps)
  show ?thesis
    using t1 t2 t3' by (simp only: simp_thms)
qed

text \<open>
  C5 as stated ("empty pieces produce no button") fails: for the message
  \<open>Options: Red,,White\<close> three buttons are rendered, the second with an empty label.
\<close>

theorem empty_piece_gets_button_counterexample:
  "map button_textContent (optionsDiv
     (getNextQuestion_resume (JsonObj (body None (Some (js ''Options: Red,,White'')) None))
        (initialA (js ''1'')))) = [js ''Red'', [], js ''White'']"
  by (simp add: getNextQuestion_resume_options message_or_empty_def body_def match_at_def
      new_button_def string_eval)

section \<open>Variant B: option buttons replace one another\<close>

lemma filter_buttons_of_buttons: "filter is_option_button (map OptionButton opts) = map OptionButton opts"
  by (induction opts) simp_all

lemma filter_lines_of_buttons: "filter (\<lambda>n. \<not> is_option_button n) (map OptionButton opts) = []"
  by (induction opts) simp_all

lemma remove_option_buttons_none:
  "filter is_option_button (conversationDiv_B (remove_option_buttons b)) = []"
  by (simp add: remove_option_buttons_def)

lemma addOptionButtons_buttons:
  "filter is_option_button (conversationDiv_B (addOptionButtons opts b)) = map OptionButton opts"
  by (simp add: addOptionButtons_def remove_option_buttons_def Let_def filter_buttons_of_buttons)

lemma addOptionButtons_lines:
  "filter (\<lambda>n. \<not> is_option_button n) (conversationDiv_B (addOptionButtons opts b)) =
   filter (\<lambda>n. \<not> is_option_button n) (conversationDiv_B b)"
  by (simp add: addOptionButtons_def remove_option_buttons_def Let_def filter_lines_of_buttons)

text \<open>
  C7 (amended). In variant B, after \<open>addOptionButtons\<close> the option buttons in the
  page are exactly the new set, in order, whatever was there before, and the transcript
  lines are untouched; rendering \<open>Red\<close>, \<open>White\<close> and then \<open>rose\<close> alone leaves
  exactly one button, labelled \<open>rose\<close>. When a response that carries no
  (non-empty) \<open>error\<close> has an absent or empty options list, no option button is left;
  when its list is not empty, the buttons are exactly that list.
\<close>

theorem option_render_replaces:
  "filter is_option_button (conversationDiv_B (addOptionButtons opts b)) =
     map OptionButton opts \<and>
   filter (\<lambda>n. \<not> is_option_button n) (conversationDiv_B (addOptionButtons opts b)) =
     filter (\<lambda>n. \<not> is_option_button n) (conversationDiv_B b) \<and>
   filter is_option_button
     (conversationDiv_B (addOptionButtons [rose] (addOptionButtons [js ''Red'', js ''White''] b))) =
     [OptionButton rose] \<and>
   (\<not> truthy (r_error data) \<and> (r_options data = None \<or> r_options data = Some []) \<longrightarrow>
      filter is_option_button (conversationDiv_B (sendChat_resume (JsonObj data) b)) = []) \<and>
   (\<not> truthy (r_error data) \<and> r_options data = Some (opt # others) \<longrightarrow>
      filter is_option_button (conversationDiv_B (sendChat_resume (JsonObj data) b)) =
        map OptionButton (opt # others))"
proof -
  have 3: "filter is_option_button
     (conversationDiv_B (addOptionButtons [rose] (addOptionButtons [js ''Red'', js ''White''] b))) =
     [OptionButton rose]"
    by (simp add: addOptionButtons_buttons)
  have 4: "\<not> truthy (r_error data) \<Longrightarrow> r_options data = None \<or> r_options data = Some [] \<Longrightarrow>
      filter is_option_button (conversationDiv_B (sendChat_resume (JsonObj data) b)) = []"
    by (auto simp: sendChat_resume_def Let_def remove_option_buttons_none)
  have 5: "\<not> truthy (r_error data) \<Longrightarrow> r_options data = Some (opt # others) \<Longrightarrow>
      filter is_option_button (conversationDiv_B (sendChat_resume (JsonObj data) b)) =
        map OptionButton (opt # others)"
    by (simp add: sendChat_resume_def Let_def addOptionButtons_buttons)
  show ?thesis
    using addOptionButtons_buttons [of opts b] addOptionButtons_lines [of opts b] 3 4 5
    by blast
qed

theorem option_render_replaces_witness:
  "filter is_option_button (conversationDiv_B
     (sendChat_resume
        (JsonObj \<lparr>r_error = None, r_message = Some (js ''Here is your wine.''),
                  r_done = None, r_options = None\<rparr>)
        (addOptionButtons [js ''Red'', js ''White''] (initialB (js ''1''))))) = [] \<and>
   filter is_option_button (conversationDiv_B
     (sendChat_resume
        (JsonObj \<lparr>r_error = None, r_message = Some (js ''Red or white?''),
                  r_done = None, r_options = Some [js ''Red'', js ''White'']\<rparr>)
        (initialB (js ''1'')))) = [OptionButton (js ''Red''), OptionButton (js ''White'')]"
proof -
  let ?d1 = "\<lparr>r_error = None, r_message = Some (js ''Here is your wine.''),
                  r_done = None, r_options = None\<rparr>"
  let ?d2 = "\<lparr>r_error = None, r_message = Some (js ''Red or white?''),
                  r_done = None, r_options = Some [js ''Red'', js ''White'']\<rparr>"
  have h1: "\<not> truthy (r_error ?d1) \<and> (r_options ?d1 = None \<or> r_options ?d1 = Some [])"
    by (simp add: truthy_def)
  have h2: "\<not> truthy (r_error ?d2) \<and> r_options ?d2 = Some (js ''Red'' # [js ''White''])"
    by (simp add: truthy_def)
  have t1: "filter is_option_button (conversationDiv_B
     (sendChat_resume (JsonObj ?d1)
        (addOptionButtons [js ''Red'', js ''White''] (initialB (js ''1''))))) = []"
    using option_render_replaces [where data = ?d1] h1 by blast
  have t2: "filter is_option_button (conversationDiv_B
     (sendChat_resume (JsonObj ?d2) (initialB (js ''1'')))) =
      map OptionButton (js ''Red'' # [js ''White''])"
    using option_render_replaces
      [where data = ?d2 and opt = "js ''Red''" and others = "[js ''White'']"] h2
    by blast
  show ?thesis
    using t1 t2 by simp
qed

text \<open>
  C7 as stated ("when the response's options list is absent or empty, all currently
  shown option buttons are removed") fails on a response that carries an \<open>error\<close>:
  \<open>sendChat\<close> returns after showing the error (line 256), and the buttons stay.
\<close>

theorem error_response_keeps_buttons_counterexample:
  "r_options (body (Some (js ''No session'')) None None) = None \<and>
   filter is_option_button (conversationDiv_B
     (sendChat_resume (JsonObj (body (Some (js ''No session'')) None None))
        (addOptionButtons [js ''Red'', js ''White''] (initialB (js ''1''))))) =
   [OptionButton (js ''Red''), OptionButton (js ''White'')]"
  by (simp add: body_def sendChat_resume_def truthy_def js_def addMessage_B_def
      addOptionButtons_def remove_option_buttons_def initialB_def Let_def)


section \<open>The transcript is append-only\<close>

lemma addMessages_conversation:
  "conversationDiv (addMessages calls s) =
     conversationDiv s @ map (\<lambda>(sender, text). new_p sender text) calls"
  unfolding addMessages_def
  by (induction calls arbitrary: s) (simp_all add: addMessage_fields split_beta)

lemma addMessages_B_conversation:
  "conversationDiv_B (addMessages_B calls b) =
     conversationDiv_B b @ map (\<lambda>(sender, text). Paragraph (new_p sender text)) calls"
  unfolding addMessages_B_def
  by (induction calls arbitrary: b) (simp_all add: addMessage_B_conversation split_beta)

text \<open>
  C9. In both variants, a sequence of \<open>addMessage\<close> calls leaves the lines that were
  there as they were and appends one line per call, in call order; from an empty
  transcript the line count is the number of calls. The line of a call has the text
  \<open>sender: text\<close> and the one class that is the lowercased sender name, which is
  \<open>ai\<close>, \<open>you\<close> or \<open>system\<close>.
\<close>

theorem transcript_append_only:
  "conversationDiv (addMessages calls s) =
     conversationDiv s @ map (\<lambda>(sender, text). new_p sender text) calls \<and>
   length (conversationDiv (addMessages calls (s\<lparr>conversationDiv := []\<rparr>))) = length calls \<and>
   conversationDiv_B (addMessages_B calls b) =
     conversationDiv_B b @ map (\<lambda>(sender, text). Paragraph (new_p sender text)) calls \<and>
   length (conversationDiv_B (addMessages_B calls (b\<lparr>conversationDiv_B := []\<rparr>))) =
     length calls \<and>
   p_textContent (new_p sender text) = sender_name sender @ js '': '' @ text \<and>
   p_classList (new_p sender text) = [toLowerCase (sender_name sender)] \<and>
   map (\<lambda>x. toLowerCase (sender_name x)) [AI, You, System] = [js ''ai'', js ''you'', js ''system'']"
  by (simp add: addMessages_conversation addMessages_B_conversation new_p_def string_eval)

theorem transcript_append_only_witness:
  "map p_textContent (conversationDiv
     (addMessages [(You, js ''sweet''), (AI, js ''Red or white?''), (System, js ''bye'')]
        (initialA (js ''1'')))) =
   [js ''You: sweet'', js ''AI: Red or white?'', js ''System: bye'']"
  using transcript_append_only
    [of "[(You, js ''sweet''), (AI, js ''Red or white?''), (System, js ''bye'')]"
      "initialA (js ''1'')"]
  by (simp add: initialA_def new_p_def js_def)


section \<open>Submitting the free-text input\<close>

text \<open>
  C10. In both variants, submitting an input whose trimmed content is empty changes
  nothing: the page, with its transcript and its log of requests, is as before. When
  the trimmed content is not empty, the submit function hands over to the network
  function a page whose input field has already been cleared, and the field is empty
  afterwards; the request then issued (in variant A when no call is outstanding, in
  variant B always) carries the trimmed content.
\<close>

theorem submit_empty_noop_else_cleared:
  "(trim (userInput_value s) = [] \<longrightarrow> handleSubmit s = s) \<and>
   (trim (userInput_value_B b) = [] \<longrightarrow> handleSend b = b) \<and>
   (trim (userInput_value s) \<noteq> [] \<longrightarrow>
      handleSubmit s =
        sendAnswer (trim (userInput_value s))
          ((addMessage You (trim (userInput_value s)) s)\<lparr>userInput_value := []\<rparr>) \<and>
      userInput_value (handleSubmit s) = [] \<and>
      (\<not> isFetching s \<longrightarrow>
         fetched (handleSubmit s) =
           fetched s @ [answer_request (userId s) (trim (userInput_value s))])) \<and>
   (trim (userInput_value_B b) \<noteq> [] \<longrightarrow>
      handleSend b =
        sendChat (trim (userInput_value_B b))
          ((addMessage_B You (trim (userInput_value_B b)) b)\<lparr>userInput_value_B := []\<rparr>) \<and>
      userInput_value_B (handleSend b) = [] \<and>
      fetched_B (handleSend b) =
        fetched_B b @ [conversation_request (userId_B b) (trim (userInput_value_B b))])"
  by (simp add: handleSubmit_def handleSend_def Let_def sendAnswer_def sendChat_def fetch_def
      disableUI_def addMessage_def addMessage_B_def)

theorem submit_empty_noop_else_cleared_witness:
  "handleSubmit (typed (js ''   '')) = typed (js ''   '') \<and>
   handleSend (typed_B (js '' '')) = typed_B (js '' '') \<and>
   fetched (handleSubmit (typed (js '' Red ''))) = [answer_request (js ''1'') (js ''Red'')] \<and>
   userInput_value (handleSubmit (typed (js '' Red ''))) = [] \<and>
   fetched_B (handleSend (typed_B (js ''sweet''))) =
     [conversation_request (js ''1'') (js ''sweet'')]"
proof -
  have e1: "trim (userInput_value (typed (js ''   ''))) = []"
    by (simp add: typed_def string_eval)
  have e2: "trim (userInput_value_B (typed_B (js '' ''))) = []"
    by (simp add: typed_B_def string_eval)
  have n1: "trim (userInput_value (typed (js '' Red ''))) = js ''Red''"
    by (simp add: typed_def string_eval)
  have n2: "trim (userInput_value_B (typed_B (js ''sweet''))) = js ''sweet''"
    by (simp add: typed_B_def string_eval)
  have ne: "js ''Red'' \<noteq> [] \<and> js ''sweet'' \<noteq> []"
    by (simp add: js_def)
  have i: "\<not> isFetching (typed (js '' Red '')) \<and> fetched (typed (js '' Red '')) = [] \<and>
      userId (typed (js '' Red '')) = js ''1''"
    by (simp add: typed_def initialA_def)
  have j: "fetched_B (typed_B (js ''sweet'')) = [] \<and> userId_B (typed_B (js ''sweet'')) = js ''1''"
    by (simp add: typed_B_def initialB_def)
  have p1: "trim (userInput_value (typed (js '' Red ''))) \<noteq> []"
    using n1 ne by simp
  have p2: "trim (userInput_value_B (typed_B (js ''sweet''))) \<noteq> []"
    using n2 ne by simp
  note t1 = submit_empty_noop_else_cleared [of "typed (js ''   '')" "typed_B (js '' '')"]
  note t2 = submit_empty_noop_else_cleared [of "typed (js '' Red '')" "typed_B (js ''sweet'')"]
  have c1: "handleSubmit (typed (js ''   '')) = typed (js ''   '')"
    using t1 e1 by blast
  have c2: "handleSend (typed_B (js '' '')) = typed_B (js '' '')"
    using t1 e2 by blast
  have c3: "fetched (handleSubmit (typed (js '' Red ''))) =
      fetched (typed (js '' Red '')) @
        [answer_request (userId (typed (js '' Red '')))
           (trim (userInput_value (typed (js '' Red ''))))] \<and>
      userInput_value (handleSubmit (typed (js '' Red ''))) = []"
    using t2 p1 i by blast
  have c4: "fetched_B (handleSend (typed_B (js ''sweet''))) =
      fetched_B (typed_B (js ''sweet'')) @
        [conversation_request (userId_B (typed_B (js ''sweet'')))
           (trim (userInput_value_B (typed_B (js ''sweet''))))]"
    using t2 p2 by blast
  show ?thesis
    using c1 c2 c3 c4 by (simp add: n1 n2 i j)
qed

end
